theory Spec2Isabelle
  imports Main "HOL-Library.Sublist" "HOL-Library.Word"
begin

unbundle bit_operations_syntax

section \<open>Strings: the library functions the updater calls\<close>

text \<open>
  A Go string is a sequence of bytes; it is modelled as a \<open>string\<close> (a list of 8-bit
  characters).

  \<open>strings.TrimSpace\<close> removes leading and trailing white space as \<open>unicode.IsSpace\<close>
  defines it, decoding UTF-8 from the front and from the back. The code points concerned are
  U+0009..U+000D, U+0020, U+0085, U+00A0, U+1680, U+2000..U+200A, U+2028, U+2029, U+202F,
  U+205F and U+3000. \<open>whiteSpace\<close> lists their UTF-8 encodings: the decoder reads a white-space
  rune at the front (at the back) of a string exactly when one of these byte sequences is a
  prefix (a suffix) of it, since it rejects over-long forms and reads an invalid byte as
  U+FFFD, which is not white space.
\<close>

definition whiteSpace :: "string list" where
  "whiteSpace =
     [[CHR 0x09], [CHR 0x0A], [CHR 0x0B], [CHR 0x0C], [CHR 0x0D], [CHR 0x20],
      [CHR 0xC2, CHR 0x85], [CHR 0xC2, CHR 0xA0],
      [CHR 0xE1, CHR 0x9A, CHR 0x80],
      [CHR 0xE2, CHR 0x80, CHR 0x80], [CHR 0xE2, CHR 0x80, CHR 0x81],
      [CHR 0xE2, CHR 0x80, CHR 0x82], [CHR 0xE2, CHR 0x80, CHR 0x83],
      [CHR 0xE2, CHR 0x80, CHR 0x84], [CHR 0xE2, CHR 0x80, CHR 0x85],
      [CHR 0xE2, CHR 0x80, CHR 0x86], [CHR 0xE2, CHR 0x80, CHR 0x87],
      [CHR 0xE2, CHR 0x80, CHR 0x88], [CHR 0xE2, CHR 0x80, CHR 0x89],
      [CHR 0xE2, CHR 0x80, CHR 0x8A],
      [CHR 0xE2, CHR 0x80, CHR 0xA8], [CHR 0xE2, CHR 0x80, CHR 0xA9],
      [CHR 0xE2, CHR 0x80, CHR 0xAF], [CHR 0xE2, CHR 0x81, CHR 0x9F],
      [CHR 0xE3, CHR 0x80, CHR 0x80]]"

text \<open>
  \<open>stripLeading toks s\<close> removes from the front of \<open>s\<close> every leading occurrence of one of
  the byte sequences \<open>toks\<close>, one after the other (the loop of \<open>TrimLeftFunc\<close>).
\<close>

function stripLeading :: "string list \<Rightarrow> string \<Rightarrow> string" where
  "stripLeading toks s =
     (case find (\<lambda>t. t \<noteq> [] \<and> prefix t s) toks of
        None \<Rightarrow> s
      | Some t \<Rightarrow> stripLeading toks (drop (length t) s))"
  by pat_completeness auto
termination
proof (relation "measure (\<lambda>(toks, s). length s)")
  show "wf (measure (\<lambda>(toks, s). length s))" by simp
next
  fix toks :: "string list" and s t :: string
  assume "find (\<lambda>t. t \<noteq> [] \<and> prefix t s) toks = Some t"
  then have "t \<noteq> [] \<and> prefix t s"
    by (auto simp: find_Some_iff)
  then have "length t > 0 \<and> length t \<le> length s"
    by (auto simp: prefix_def)
  then show "((toks, drop (length t) s), (toks, s)) \<in> measure (\<lambda>(toks, s). length s)"
    by (cases t) auto
qed

declare stripLeading.simps [simp del]

definition TrimLeft :: "string \<Rightarrow> string" where
  "TrimLeft s = stripLeading whiteSpace s"

definition TrimRight :: "string \<Rightarrow> string" where
  "TrimRight s = rev (stripLeading (map rev whiteSpace) (rev s))"

text \<open>\<open>strings.TrimSpace\<close>: the front is trimmed first, then the back of what is left.\<close>

definition TrimSpace :: "string \<Rightarrow> string" where
  "TrimSpace s = TrimRight (TrimLeft s)"

text \<open>
  \<open>strings.ToLower\<close>, as far as the updater uses it: it only tests the result for the ASCII
  suffixes \<open>.tar.gz\<close> and \<open>.zip\<close>. ASCII capitals are mapped to their small letters. The one
  rune outside ASCII whose lower case is one of the letters of these suffixes is U+0130
  (bytes C4 B0), which becomes \<open>i\<close>. Every other byte is left as it is: the lower case of
  any other rune outside ASCII is outside ASCII, as is U+FFFD, which replaces invalid bytes.
\<close>

fun ToLower :: "string \<Rightarrow> string" where
  "ToLower [] = []"
| "ToLower [c] =
     (if 0x41 \<le> (of_char c :: nat) \<and> (of_char c :: nat) \<le> 0x5A
      then [char_of (of_char c + (0x20 :: nat))] else [c])"
| "ToLower (c # d # s) =
     (if c = CHR 0xC4 \<and> d = CHR 0xB0 then CHR ''i'' # ToLower s
      else if 0x41 \<le> (of_char c :: nat) \<and> (of_char c :: nat) \<le> 0x5A
      then char_of (of_char c + (0x20 :: nat)) # ToLower (d # s)
      else c # ToLower (d # s))"

definition HasSuffix :: "string \<Rightarrow> string \<Rightarrow> bool" where
  "HasSuffix s suf = suffix suf s"




section \<open>Errors\<close>

text \<open>
  One constructor for every error the package builds itself; \<open>ErrWrap\<close> is
  \<open>fmt.Errorf("... %w", err)\<close>; \<open>ErrLib\<close> is an error that comes out of the standard
  library or the operating system (URL parsing, transport, JSON, the archive readers, the
  file system), with its message.
\<close>

datatype error =
    NotSupportedError string
  | ErrInvalidScheme
  | ErrInvalidUrl string
  | ErrStatusCode int
  | ErrNoCurrentVersion
  | ErrNoBinaryName
  | ErrArchiveKind string
  | ErrBinaryNotFound string string
  | ErrTemplate string
  | ErrWrap string error
  | ErrLib string

section \<open>The manifest, the configuration and the updater\<close>

record UpdaterManifest =
  Version :: string
  Archive :: string
  Binary :: string
  Os :: "string \<rightharpoonup> string"
  Arch :: "string \<rightharpoonup> (string \<rightharpoonup> string)"

record UpdaterConfig =
  CurrentVersion :: string
  BaseUrl :: string
  UpdaterConfigFile :: string

record Updater =
  config :: UpdaterConfig
  archiveName :: string
  binaryName :: string


section \<open>Templates\<close>





section \<open>Paths\<close>

text \<open>
  \<open>os.IsPathSeparator\<close>, \<open>filepath.Base\<close>, \<open>filepath.Dir\<close> and \<open>filepath.Join\<close>. The
  separator is \<open>/\<close>, and on Windows \<open>\\<close> as well. Volume names are not modelled. \<open>Dir\<close>
  and \<open>Join\<close> are modelled for the paths the updater builds with them: a file name without
  a separator below the directory \<open>TempDir\<close>, which stands for the cleaned path.
\<close>

definition isPathSeparator :: "string \<Rightarrow> char \<Rightarrow> bool" where
  "isPathSeparator goos c = (c = CHR ''/'' \<or> (goos = ''windows'' \<and> c = CHR 0x5C))"

definition Separator :: "string \<Rightarrow> char" where
  "Separator goos = (if goos = ''windows'' then CHR 0x5C else CHR ''/'')"

definition filepathBase :: "string \<Rightarrow> string \<Rightarrow> string" where
  "filepathBase goos path =
     (if path = [] then ''.''
      else
        let stripped = rev (dropWhile (isPathSeparator goos) (rev path));
            element = rev (takeWhile (\<lambda>c. \<not> isPathSeparator goos c) (rev stripped))
        in if element = [] then [Separator goos] else element)"

definition filepathDir :: "string \<Rightarrow> string \<Rightarrow> string" where
  "filepathDir goos path =
     rev (dropWhile (isPathSeparator goos)
       (dropWhile (\<lambda>c. \<not> isPathSeparator goos c) (rev path)))"

definition filepathJoin :: "string \<Rightarrow> string \<Rightarrow> string \<Rightarrow> string" where
  "filepathJoin goos dir name = dir @ [Separator goos] @ name"

section \<open>The world outside the package\<close>

text \<open>
  What the package reads from its environment and from the libraries it calls is collected
  in a \<open>world\<close>: the platform (\<open>runtime.GOOS\<close>, \<open>runtime.GOARCH\<close>), \<open>os.TempDir()\<close>,
  \<open>os.Executable()\<close>, the strings \<open>uuid.NewString()\<close> returns (the n-th call returns
  \<open>uuidGen w n\<close>), the process's umask, \<open>url.JoinPath\<close> and \<open>url.Parse\<close>, the server
  (\<open>httpServer w u\<close> is what a GET of \<open>u\<close> yields: a transport error or a response),
  \<open>json.Unmarshal\<close> into a manifest, the zip and gzip+tar readers, and the faults of the file
  system: \<open>fault w n = Some (e, k)\<close> makes the n-th file-system operation fail with \<open>e\<close>, a
  write after \<open>k\<close> bytes. The theorems hold for every world.
\<close>

record url =
  Scheme :: string
  Host :: string

record response =
  StatusCode :: int
  Body :: "error + string"

text \<open>
  A zip entry: its name, whether its mode is regular, the error of \<open>f.Open()\<close> if it fails,
  and what reading it yields: the bytes, and the error that ends the reading if there is
  one. A tar entry: its header's name and type flag, and what reading it yields. A tar
  stream is the entries \<open>Next()\<close> returns, ended by \<open>io.EOF\<close> (\<open>None\<close>) or by an error.
\<close>

record zip_file =
  ZName :: string
  ZRegular :: bool
  ZOpen :: "error option"
  ZData :: string
  ZReadErr :: "error option"

record tar_entry =
  TName :: string
  Typeflag :: char
  TData :: string
  TReadErr :: "error option"

record tar_stream =
  entries :: "tar_entry list"
  ending :: "error option"

definition TypeReg :: char where
  "TypeReg = CHR ''0''"

record world =
  GOOS :: string
  GOARCH :: string
  TempDir :: string
  Executable :: "error + string"
  uuidGen :: "nat \<Rightarrow> string"
  umask :: "32 word"
  urlJoinPath :: "string \<Rightarrow> string \<Rightarrow> error + string"
  urlParse :: "string \<Rightarrow> error + url"
  httpServer :: "string \<Rightarrow> error + response"
  jsonUnmarshal :: "string \<Rightarrow> error + UpdaterManifest"
  zipReader :: "string \<Rightarrow> error + zip_file list"
  gzipTarReader :: "string \<Rightarrow> error + tar_stream"
  fault :: "nat \<Rightarrow> (error \<times> nat) option"

section \<open>State: the file system, the requests made, the identifiers drawn\<close>

record file_data =
  content :: string
  perm :: "32 word"

type_synonym filesystem = "string \<rightharpoonup> file_data"

text \<open>
  \<open>trace\<close> is the history of the file system: its state after each file-system operation,
  oldest first. Its length numbers the operations, for \<open>fault\<close>.
\<close>

record state =
  fs :: filesystem
  requests :: "string list"
  uuids :: nat
  trace :: "filesystem list"

type_synonym 'a io = "state \<Rightarrow> (error + 'a) \<times> state"

text \<open>
  \<open>andThen m f\<close> is Go's \<open>x, err := m(); if err != nil { return err }; f(x)\<close>.
  \<open>wrapErr msg m\<close> is \<open>if err != nil { return fmt.Errorf(msg + " %w", err) }\<close>.
\<close>

definition andThen :: "'a io \<Rightarrow> ('a \<Rightarrow> 'b io) \<Rightarrow> 'b io" where
  "andThen m f st = (case m st of (Inl e, st') \<Rightarrow> (Inl e, st') | (Inr x, st') \<Rightarrow> f x st')"

definition succeed :: "'a \<Rightarrow> 'a io" where
  "succeed x st = (Inr x, st)"

definition failWith :: "error \<Rightarrow> 'a io" where
  "failWith e st = (Inl e, st)"

definition lift :: "error + 'a \<Rightarrow> 'a io" where
  "lift r st = (r, st)"

definition wrapErr :: "string \<Rightarrow> 'a io \<Rightarrow> 'a io" where
  "wrapErr msg m st =
     (case m st of (Inl e, st') \<Rightarrow> (Inl (ErrWrap msg e), st') | (Inr x, st') \<Rightarrow> (Inr x, st'))"

definition uuidNewString :: "world \<Rightarrow> string io" where
  "uuidNewString w st = (Inr (uuidGen w (uuids st)), st\<lparr>uuids := Suc (uuids st)\<rparr>)"

text \<open>\<open>httpClient.Do(request)\<close>: the request is made, and recorded.\<close>

definition httpDo :: "world \<Rightarrow> string \<Rightarrow> response io" where
  "httpDo w requestUrl st = (httpServer w requestUrl, st\<lparr>requests := requests st @ [requestUrl]\<rparr>)"

text \<open>
  \<open>http.NewRequest("GET", url, nil)\<close> fails only when the URL does not parse.
\<close>

definition httpNewRequest :: "world \<Rightarrow> string \<Rightarrow> error + string" where
  "httpNewRequest w requestUrl =
     (case urlParse w requestUrl of Inl e \<Rightarrow> Inl e | Inr u \<Rightarrow> Inr requestUrl)"

subsection \<open>File-system operations\<close>

text \<open>
  Every operation first asks \<open>fault\<close> whether it fails, then acts, and appends the file
  system it leaves to the trace.
\<close>

definition commit :: "filesystem \<Rightarrow> state \<Rightarrow> state" where
  "commit f st = st\<lparr>fs := f, trace := trace st @ [f]\<rparr>"

definition nextFault :: "world \<Rightarrow> state \<Rightarrow> (error \<times> nat) option" where
  "nextFault w st = fault w (length (trace st))"

definition os_Rename :: "world \<Rightarrow> string \<Rightarrow> string \<Rightarrow> unit io" where
  "os_Rename w oldpath newpath st =
     (case nextFault w st of
        Some (e, k) \<Rightarrow> (Inl e, commit (fs st) st)
      | None \<Rightarrow>
          (case fs st oldpath of
             None \<Rightarrow> (Inl (ErrLib ''rename: no such file or directory''), commit (fs st) st)
           | Some f \<Rightarrow> (Inr (), commit ((fs st)(oldpath := None, newpath \<mapsto> f)) st)))"

text \<open>
  \<open>os.OpenFile(name, O_WRONLY|O_CREATE|O_TRUNC, perm)\<close>: a new file gets \<open>perm\<close> less the
  umask, a file that exists is emptied and keeps its mode.
\<close>

definition openTrunc :: "world \<Rightarrow> string \<Rightarrow> 32 word \<Rightarrow> unit io" where
  "openTrunc w name p st =
     (case nextFault w st of
        Some (e, k) \<Rightarrow> (Inl e, commit (fs st) st)
      | None \<Rightarrow>
          (Inr (), commit ((fs st)(name \<mapsto>
             \<lparr>content = [],
              perm = (case fs st name of None \<Rightarrow> p AND NOT (umask w) | Some f \<Rightarrow> perm f)\<rparr>)) st))"

text \<open>Writing \<open>data\<close> to the open file \<open>name\<close>: a fault leaves the first \<open>k\<close> bytes.\<close>

definition writeData :: "world \<Rightarrow> string \<Rightarrow> string \<Rightarrow> unit io" where
  "writeData w name data st =
     (case fs st name of
        None \<Rightarrow> (Inl (ErrLib ''write: file not open''), commit (fs st) st)
      | Some f \<Rightarrow>
          (case nextFault w st of
             Some (e, k) \<Rightarrow> (Inl e, commit ((fs st)(name \<mapsto> f\<lparr>content := take k data\<rparr>)) st)
           | None \<Rightarrow> (Inr (), commit ((fs st)(name \<mapsto> f\<lparr>content := data\<rparr>)) st)))"

definition file_Close :: "world \<Rightarrow> string \<Rightarrow> unit io" where
  "file_Close w name st =
     (case nextFault w st of
        Some (e, k) \<Rightarrow> (Inl e, commit (fs st) st)
      | None \<Rightarrow> (Inr (), commit (fs st) st))"

text \<open>
  \<open>os.WriteFile\<close>: open, write, close; the error of the write comes before that of the
  close.
\<close>

definition os_WriteFile :: "world \<Rightarrow> string \<Rightarrow> string \<Rightarrow> 32 word \<Rightarrow> unit io" where
  "os_WriteFile w name data p =
     andThen (openTrunc w name p) (\<lambda>_ st.
       case writeData w name data st of
         (Inl e, st') \<Rightarrow> (Inl e, snd (file_Close w name st'))
       | (Inr x, st') \<Rightarrow> file_Close w name st')"

definition os_Create :: "world \<Rightarrow> string \<Rightarrow> unit io" where
  "os_Create w name = openTrunc w name 0x1B6"

text \<open>
  \<open>io.Copy(file, reader)\<close>: the bytes the reader yields are written; a write error is
  returned first, then the error that ended the reading.
\<close>

definition io_Copy :: "world \<Rightarrow> string \<Rightarrow> string \<Rightarrow> error option \<Rightarrow> unit io" where
  "io_Copy w name data readErr =
     andThen (writeData w name data) (\<lambda>_.
       case readErr of None \<Rightarrow> succeed () | Some e \<Rightarrow> failWith e)"

definition os_Chmod :: "world \<Rightarrow> string \<Rightarrow> 32 word \<Rightarrow> unit io" where
  "os_Chmod w name mode st =
     (case nextFault w st of
        Some (e, k) \<Rightarrow> (Inl e, commit (fs st) st)
      | None \<Rightarrow>
          (case fs st name of
             None \<Rightarrow> (Inl (ErrLib ''chmod: no such file or directory''), commit (fs st) st)
           | Some f \<Rightarrow> (Inr (), commit ((fs st)(name \<mapsto> f\<lparr>perm := mode\<rparr>)) st)))"

definition os_Remove :: "world \<Rightarrow> string \<Rightarrow> unit io" where
  "os_Remove w name st =
     (case nextFault w st of
        Some (e, k) \<Rightarrow> (Inl e, commit (fs st) st)
      | None \<Rightarrow>
          (case fs st name of
             None \<Rightarrow> (Inl (ErrLib ''remove: no such file or directory''), commit (fs st) st)
           | Some f \<Rightarrow> (Inr (), commit ((fs st)(name := None)) st)))"

text \<open>\<open>os.Open\<close>, for reading: the content of the file.\<close>

definition os_Open :: "world \<Rightarrow> string \<Rightarrow> string io" where
  "os_Open w name st =
     (case nextFault w st of
        Some (e, k) \<Rightarrow> (Inl e, commit (fs st) st)
      | None \<Rightarrow>
          (case fs st name of
             None \<Rightarrow> (Inl (ErrLib ''open: no such file or directory''), commit (fs st) st)
           | Some f \<Rightarrow> (Inr (content f), commit (fs st) st)))"

section \<open>The package\<close>

subsection \<open>validateUrl, GetManifest, CheckForAvailableUpdate\<close>

definition validateUrl :: "world \<Rightarrow> string \<Rightarrow> error + unit" where
  "validateUrl w path =
     (case urlParse w path of
        Inl e \<Rightarrow> Inl e
      | Inr u \<Rightarrow>
          if Scheme u \<noteq> ''https'' then Inl ErrInvalidScheme
          else if Host u = [] then Inl (ErrInvalidUrl path)
          else Inr ())"

definition GetManifest :: "world \<Rightarrow> Updater \<Rightarrow> UpdaterManifest io" where
  "GetManifest w updater =
     andThen (lift (urlJoinPath w (BaseUrl (config updater)) (UpdaterConfigFile (config updater))))
       (\<lambda>requestUrl.
     andThen (lift (validateUrl w requestUrl)) (\<lambda>_.
     andThen (lift (httpNewRequest w requestUrl)) (\<lambda>request.
     andThen (httpDo w request) (\<lambda>resp.
     if StatusCode resp \<noteq> 200 then failWith (ErrStatusCode (StatusCode resp))
     else
     andThen (lift (Body resp)) (\<lambda>responseBody.
     lift (jsonUnmarshal w responseBody))))))"

text \<open>
  The three results of \<open>CheckForAvailableUpdate\<close>: whether an update is available, the new
  version, and the error (\<open>None\<close> is Go's \<open>nil\<close>).
\<close>

definition CheckForAvailableUpdate ::
  "world \<Rightarrow> Updater \<Rightarrow> state \<Rightarrow> (bool \<times> string \<times> error option) \<times> state" where
  "CheckForAvailableUpdate w updater st =
     (let currentVersion = TrimSpace (CurrentVersion (config updater)) in
      if currentVersion = [] then ((False, [], Some ErrNoCurrentVersion), st)
      else
        (case GetManifest w updater st of
           (Inl err, st') \<Rightarrow> ((False, [], Some err), st')
         | (Inr manifest, st') \<Rightarrow>
             (let manifestVersion = TrimSpace (Version manifest) in
              if currentVersion \<noteq> manifestVersion then ((True, manifestVersion, None), st')
              else ((False, [], None), st'))))"

subsection \<open>GetDownloadInfo\<close>


subsection \<open>downloadBinary\<close>

definition downloadBinary :: "world \<Rightarrow> Updater \<Rightarrow> unit io" where
  "downloadBinary w updater =
     (let tempDir = TempDir w in
      andThen (uuidNewString w) (\<lambda>filename.
      let tempFile = filepathJoin (GOOS w) tempDir filename in
      andThen (lift (Executable w)) (\<lambda>binaryPath.
      andThen (lift (urlJoinPath w (BaseUrl (config updater)) (binaryName updater)))
        (\<lambda>requestUrl.
      andThen (lift (validateUrl w requestUrl)) (\<lambda>_.
      andThen (lift (httpNewRequest w requestUrl)) (\<lambda>request.
      andThen (httpDo w request) (\<lambda>resp.
      if StatusCode resp \<noteq> 200 then failWith (ErrStatusCode (StatusCode resp))
      else
      andThen (lift (Body resp)) (\<lambda>responseBody.
      andThen (os_Rename w binaryPath tempFile) (\<lambda>_.
      andThen (os_WriteFile w binaryPath responseBody 0x1A4) (\<lambda>_.
      os_Chmod w binaryPath 0x1E4))))))))))"

subsection \<open>extractZip\<close>

text \<open>
  The block under \<open>if basename == updater.binaryName\<close>: \<open>True\<close> when the entry was
  installed (the loop is left by \<open>break\<close>), \<open>False\<close> when the entry is not a regular file
  (the loop goes on).
\<close>

definition zipMatch ::
  "world \<Rightarrow> string \<Rightarrow> string \<Rightarrow> string \<Rightarrow> zip_file \<Rightarrow> bool io" where
  "zipMatch w tempDir destination binaryPath f =
     andThen (uuidNewString w) (\<lambda>filename.
     andThen (uuidNewString w) (\<lambda>tempName.
     let tempPath = filepathJoin (GOOS w) tempDir tempName;
         path = filepathJoin (GOOS w) destination filename
     in
     if ZRegular f then
       andThen (wrapErr ''ExtractZip: failed to open file'' (os_Create w path)) (\<lambda>_.
       andThen (wrapErr ''ExtractZip: failed to copy file''
                  (io_Copy w path (ZData f) (ZReadErr f))) (\<lambda>_.
       andThen (file_Close w path) (\<lambda>_.
       andThen (os_Rename w binaryPath tempPath) (\<lambda>_.
       andThen (os_Rename w path binaryPath) (\<lambda>_.
       andThen (os_Chmod w binaryPath 0x1E4) (\<lambda>_.
       succeed True))))))
     else succeed False))"

fun extractZipLoop ::
  "world \<Rightarrow> Updater \<Rightarrow> string \<Rightarrow> string \<Rightarrow> string \<Rightarrow> zip_file list \<Rightarrow> bool io" where
  "extractZipLoop w updater tempDir destination binaryPath [] st = (Inr False, st)"
| "extractZipLoop w updater tempDir destination binaryPath (f # files) st =
     (case ZOpen f of
        Some err \<Rightarrow> (Inl (ErrWrap ''ExtractZip: failed to open file'' err), st)
      | None \<Rightarrow>
          if filepathBase (GOOS w) (ZName f) = binaryName updater then
            (case zipMatch w tempDir destination binaryPath f st of
               (Inl err, st') \<Rightarrow> (Inl err, st')
             | (Inr created, st') \<Rightarrow>
                 if created then (Inr True, st')
                 else extractZipLoop w updater tempDir destination binaryPath files st')
          else extractZipLoop w updater tempDir destination binaryPath files st)"

text \<open>\<open>zip.OpenReader(src)\<close> opens the file and reads the directory of the archive.\<close>

definition zipOpenReader :: "world \<Rightarrow> string \<Rightarrow> zip_file list io" where
  "zipOpenReader w src = andThen (os_Open w src) (\<lambda>bytes. lift (zipReader w bytes))"

definition extractZip :: "world \<Rightarrow> Updater \<Rightarrow> string \<Rightarrow> unit io" where
  "extractZip w updater src =
     (let tempDir = TempDir w;
          destination = filepathDir (GOOS w) src
      in
      andThen (lift (Executable w)) (\<lambda>binaryPath.
      andThen (wrapErr ''ExtractZip: NewReader failed'' (zipOpenReader w src)) (\<lambda>files.
      andThen (extractZipLoop w updater tempDir destination binaryPath files) (\<lambda>created.
      if \<not> created
      then failWith (ErrBinaryNotFound (archiveName updater) (binaryName updater))
      else succeed ()))))"

subsection \<open>extractTarball\<close>

text \<open>
  The block under \<open>if basename == updater.binaryName\<close>, a \<open>switch\<close> on the type flag:
  \<open>True\<close> when \<open>case tar.TypeReg\<close> ran to its end, \<open>False\<close> for \<open>default: continue\<close>.
\<close>

definition tarMatch ::
  "world \<Rightarrow> string \<Rightarrow> string \<Rightarrow> string \<Rightarrow> tar_entry \<Rightarrow> bool io" where
  "tarMatch w tempDir destination binaryPath header =
     andThen (uuidNewString w) (\<lambda>filename.
     andThen (uuidNewString w) (\<lambda>tempName.
     let tempPath = filepathJoin (GOOS w) tempDir tempName;
         path = filepathJoin (GOOS w) destination filename
     in
     if Typeflag header = TypeReg then
       andThen (wrapErr ''ExtractTarGz: Create() failed:'' (os_Create w path)) (\<lambda>_.
       andThen (wrapErr ''ExtractTarGz: Copy() failed:''
                  (io_Copy w path (TData header) (TReadErr header))) (\<lambda>_.
       andThen (wrapErr ''Failed to close file.'' (file_Close w path)) (\<lambda>_.
       andThen (os_Rename w binaryPath tempPath) (\<lambda>_.
       andThen (os_Rename w path binaryPath) (\<lambda>_.
       andThen (os_Chmod w binaryPath 0x1E4) (\<lambda>_.
       succeed True))))))
     else succeed False))"

text \<open>
  The \<open>for\<close> loop over \<open>tarReader.Next()\<close>. The \<open>break\<close> after \<open>created = true\<close> stands
  inside the \<open>switch\<close>, so it leaves the \<open>switch\<close> and the loop goes on to the next entry,
  with \<open>created\<close> set.
\<close>

fun extractTarLoop ::
  "world \<Rightarrow> Updater \<Rightarrow> string \<Rightarrow> string \<Rightarrow> string \<Rightarrow> tar_entry list \<Rightarrow> error option \<Rightarrow>
   bool \<Rightarrow> bool io" where
  "extractTarLoop w updater tempDir destination binaryPath [] fin created st =
     (case fin of
        None \<Rightarrow> (Inr created, st)
      | Some err \<Rightarrow> (Inl (ErrWrap ''ExtractTarGz: Next() failed:'' err), st))"
| "extractTarLoop w updater tempDir destination binaryPath (header # rest) fin created st =
     (if filepathBase (GOOS w) (TName header) = binaryName updater then
        (case tarMatch w tempDir destination binaryPath header st of
           (Inl err, st') \<Rightarrow> (Inl err, st')
         | (Inr installed, st') \<Rightarrow>
             extractTarLoop w updater tempDir destination binaryPath rest fin
               (if installed then True else created) st')
      else extractTarLoop w updater tempDir destination binaryPath rest fin created st)"

definition extractTarball :: "world \<Rightarrow> Updater \<Rightarrow> string \<Rightarrow> unit io" where
  "extractTarball w updater src =
     (let tempDir = TempDir w;
          destination = filepathDir (GOOS w) src
      in
      andThen (lift (Executable w)) (\<lambda>binaryPath.
      andThen (os_Open w src) (\<lambda>file.
      andThen (wrapErr ''ExtractTarGz: NewReader failed'' (lift (gzipTarReader w file)))
        (\<lambda>tarReader.
      andThen (extractTarLoop w updater tempDir destination binaryPath
                 (entries tarReader) (ending tarReader) False) (\<lambda>created.
      if \<not> created
      then failWith (ErrBinaryNotFound (archiveName updater) (binaryName updater))
      else os_Remove w src)))))"

subsection \<open>downloadArchive, Update\<close>

definition downloadArchive :: "world \<Rightarrow> Updater \<Rightarrow> unit io" where
  "downloadArchive w updater =
     (let tempDir = TempDir w in
      andThen (uuidNewString w) (\<lambda>filename.
      let tempFile = filepathJoin (GOOS w) tempDir filename in
      andThen (lift (urlJoinPath w (BaseUrl (config updater)) (archiveName updater)))
        (\<lambda>requestUrl.
      andThen (lift (validateUrl w requestUrl)) (\<lambda>_.
      andThen (lift (httpNewRequest w requestUrl)) (\<lambda>request.
      andThen (httpDo w request) (\<lambda>resp.
      if StatusCode resp \<noteq> 200 then failWith (ErrStatusCode (StatusCode resp))
      else
      andThen (lift (Body resp)) (\<lambda>responseBody.
      andThen (os_WriteFile w tempFile responseBody 0x1A4) (\<lambda>_.
      if HasSuffix (ToLower (archiveName updater)) ''.tar.gz''
      then extractTarball w updater tempFile
      else if HasSuffix (ToLower (archiveName updater)) ''.zip''
      then extractZip w updater tempFile
      else failWith (ErrArchiveKind (archiveName updater))))))))))"


section \<open>A sample world\<close>

text \<open>
  The scenario of the package's documentation, for evaluating the functions: a Linux/amd64
  host, the executable at \<open>/opt/tool\<close>, a server at \<open>https://example.com\<close> that has the
  manifest, the bare binary \<open>linux\<close>, and the archives \<open>tool.tar.gz\<close> and \<open>tool.zip\<close>.
  \<open>sampleParse\<close> and the sample \<open>urlJoinPath\<close> stand for \<open>net/url\<close> on the few URLs of
  the scenario.
\<close>

definition sampleParse :: "string \<Rightarrow> error + url" where
  "sampleParse s =
     (if prefix ''https://'' s
      then Inr \<lparr>Scheme = ''https'', Host = takeWhile (\<lambda>c. c \<noteq> CHR ''/'') (drop 8 s)\<rparr>
      else if prefix ''http://'' s
      then Inr \<lparr>Scheme = ''http'', Host = takeWhile (\<lambda>c. c \<noteq> CHR ''/'') (drop 7 s)\<rparr>
      else Inr \<lparr>Scheme = [], Host = []\<rparr>)"

definition sampleManifest :: UpdaterManifest where
  "sampleManifest =
     \<lparr>Version = ''2.0.0'', Archive = [], Binary = ''{{.Os}}{{.Ext}}'',
      Os = [''linux'' \<mapsto> ''linux''],
      Arch = [''linux'' \<mapsto> [''amd64'' \<mapsto> ''amd64'']]\<rparr>"

definition sampleTar :: tar_stream where
  "sampleTar =
     \<lparr>entries =
        [\<lparr>TName = ''dir/tool'', Typeflag = TypeReg, TData = ''FIRST'', TReadErr = None\<rparr>,
         \<lparr>TName = ''other/tool'', Typeflag = TypeReg, TData = ''SECOND'', TReadErr = None\<rparr>],
      ending = None\<rparr>"

definition sampleZip :: "zip_file list" where
  "sampleZip =
     [\<lparr>ZName = ''dir/tool'', ZRegular = True, ZOpen = None, ZData = ''ZIPPED'',
       ZReadErr = None\<rparr>]"

definition sampleWorld :: world where
  "sampleWorld =
     \<lparr>GOOS = ''linux'', GOARCH = ''amd64'', TempDir = ''/tmp'',
      Executable = Inr ''/opt/tool'',
      uuidGen = (\<lambda>n. ''uuid'' @ replicate n (CHR ''+'')),
      umask = 0x12,
      urlJoinPath = (\<lambda>base elem. Inr (base @ ''/'' @ elem)),
      urlParse = sampleParse,
      httpServer = (\<lambda>u.
        if u = ''https://example.com/manifest.json''
        then Inr \<lparr>StatusCode = 200, Body = Inr ''MANIFEST''\<rparr>
        else if u = ''https://example.com/linux''
        then Inr \<lparr>StatusCode = 200, Body = Inr ''NEWBIN''\<rparr>
        else if u = ''https://example.com/tool.tar.gz''
        then Inr \<lparr>StatusCode = 200, Body = Inr ''TARBYTES''\<rparr>
        else if u = ''https://example.com/tool.zip''
        then Inr \<lparr>StatusCode = 200, Body = Inr ''ZIPBYTES''\<rparr>
        else Inr \<lparr>StatusCode = 404, Body = Inr []\<rparr>),
      jsonUnmarshal = (\<lambda>b. if b = ''MANIFEST'' then Inr sampleManifest
                            else Inl (ErrLib ''invalid character'')),
      zipReader = (\<lambda>b. if b = ''ZIPBYTES'' then Inr sampleZip
                        else Inl (ErrLib ''zip: not a valid zip file'')),
      gzipTarReader = (\<lambda>b. if b = ''TARBYTES'' then Inr sampleTar
                            else Inl (ErrLib ''gzip: invalid header'')),
      fault = (\<lambda>n. None)\<rparr>"

definition sampleUpdater :: Updater where
  "sampleUpdater =
     \<lparr>config = \<lparr>CurrentVersion = ''1.0.0'', BaseUrl = ''https://example.com'',
                UpdaterConfigFile = ''manifest.json''\<rparr>,
      archiveName = [], binaryName = []\<rparr>"

definition sampleState :: state where
  "sampleState =
     \<lparr>fs = [''/opt/tool'' \<mapsto> \<lparr>content = ''OLDBIN'', perm = 0x1ED\<rparr>],
      requests = [], uuids = 0, trace = []\<rparr>"

text \<open>The same world with the manifest naming an archive.\<close>

definition archiveWorld :: "string \<Rightarrow> world" where
  "archiveWorld name =
     sampleWorld\<lparr>jsonUnmarshal :=
       (\<lambda>b. Inr (sampleManifest\<lparr>Archive := name, Binary := ''tool''\<rparr>))\<rparr>"

section \<open>Lemmas on trimming\<close>

lemma find_token:
  assumes ne: "[] \<notin> set toks"
    and pf: "\<forall>t\<in>set toks. \<forall>t'\<in>set toks. prefix t t' \<longrightarrow> t = t'"
    and t: "t \<in> set toks"
  shows "find (\<lambda>t'. t' \<noteq> [] \<and> prefix t' (t @ x)) toks = Some t"
proof (cases "find (\<lambda>t'. t' \<noteq> [] \<and> prefix t' (t @ x)) toks")
  case None
  then have "\<not> (t \<noteq> [] \<and> prefix t (t @ x))"
    using t by (auto simp: find_None_iff)
  with ne t show ?thesis by auto
next
  case (Some t')
  then have t': "t' \<in> set toks" "prefix t' (t @ x)"
    by (auto simp: find_Some_iff)
  have "prefix t (t @ x)" by simp
  with t' have "prefix t t' \<or> prefix t' t"
    using prefix_same_cases by blast
  with pf t t' have "t' = t" by blast
  with Some show ?thesis by simp
qed

lemma stripLeading_token:
  assumes "[] \<notin> set toks"
    and "\<forall>t\<in>set toks. \<forall>t'\<in>set toks. prefix t t' \<longrightarrow> t = t'"
    and "t \<in> set toks"
  shows "stripLeading toks (t @ x) = stripLeading toks x"
  using find_token [OF assms, of x]
  by (subst stripLeading.simps) simp

lemma stripLeading_concat:
  assumes "[] \<notin> set toks"
    and "\<forall>t\<in>set toks. \<forall>t'\<in>set toks. prefix t t' \<longrightarrow> t = t'"
    and "set ts \<subseteq> set toks"
  shows "stripLeading toks (concat ts @ x) = stripLeading toks x"
  using assms(3)
proof (induction ts)
  case Nil
  then show ?case by simp
next
  case (Cons t ts)
  then show ?case
    using stripLeading_token [OF assms(1,2), of t "concat ts @ x"] by simp
qed

lemma stripLeading_Nil: "stripLeading toks [] = []"
  by (subst stripLeading.simps) (auto split: option.splits simp: find_Some_iff)

lemma stripLeading_empty_tokens:
  "stripLeading toks s = [] \<Longrightarrow> \<exists>ts. set ts \<subseteq> set toks \<and> s = concat ts"
proof (induction toks s rule: stripLeading.induct)
  case (1 toks s)
  show ?case
  proof (cases "find (\<lambda>t. t \<noteq> [] \<and> prefix t s) toks")
    case None
    with "1.prems" have "s = []"
      by (subst (asm) stripLeading.simps) simp
    then show ?thesis by (intro exI [of _ "[]"]) simp
  next
    case (Some t)
    then have t: "t \<in> set toks" "prefix t s"
      by (auto simp: find_Some_iff)
    from Some "1.prems" have "stripLeading toks (drop (length t) s) = []"
      by (subst (asm) stripLeading.simps) simp
    from "1.IH" [OF Some this] obtain ts where
      ts: "set ts \<subseteq> set toks" "drop (length t) s = concat ts" by blast
    from t(2) have "s = t @ drop (length t) s"
      by (auto simp: prefix_def)
    with ts t(1) show ?thesis
      by (intro exI [of _ "t # ts"]) simp
  qed
qed

lemma stripLeading_no_token:
  "find (\<lambda>t. t \<noteq> [] \<and> prefix t (stripLeading toks s)) toks = None"
proof (induction toks s rule: stripLeading.induct)
  case (1 toks s)
  show ?case
  proof (cases "find (\<lambda>t. t \<noteq> [] \<and> prefix t s) toks")
    case None
    then show ?thesis by (subst stripLeading.simps) simp
  next
    case (Some t)
    with "1.IH" [OF Some] show ?thesis by (subst stripLeading.simps) simp
  qed
qed

lemma stripLeading_idem: "stripLeading toks (stripLeading toks s) = stripLeading toks s"
  using stripLeading_no_token [of toks s]
  by (subst stripLeading.simps) simp

lemma find_none_append:
  assumes ne: "[] \<notin> set toks"
    and sync: "\<forall>t\<in>set toks. \<forall>c\<in>set (tl t). \<forall>t'\<in>set toks. hd t' \<noteq> c"
    and s: "s \<noteq> []" "find (\<lambda>t. t \<noteq> [] \<and> prefix t s) toks = None"
    and ts: "set ts \<subseteq> set toks"
  shows "find (\<lambda>t. t \<noteq> [] \<and> prefix t (s @ concat ts)) toks = None"
proof (rule ccontr)
  assume "find (\<lambda>t. t \<noteq> [] \<and> prefix t (s @ concat ts)) toks \<noteq> None"
  then obtain t where t: "t \<in> set toks" "t \<noteq> []" "prefix t (s @ concat ts)"
    by (auto simp: find_None_iff)
  from s(2) t(1,2) have nps: "\<not> prefix t s"
    by (auto simp: find_None_iff)
  with t(3) obtain r where r: "t = s @ r" "r \<noteq> []" "prefix r (concat ts)"
    by (metis append.right_neutral prefix_append prefix_order.eq_iff prefixE prefixI same_prefix_prefix)
  from s(1) r(1,2) have hr: "hd r \<in> set (tl t)"
    by (cases s) auto
  from r(2,3) have "concat ts \<noteq> []" by (metis prefix_Nil)
  moreover from ne ts have "[] \<notin> set ts" by auto
  ultimately have "\<exists>t'\<in>set ts. t' \<noteq> [] \<and> hd (concat ts) = hd t'"
    by (cases ts) auto
  then obtain t' where t': "t' \<in> set ts" "t' \<noteq> []" "hd (concat ts) = hd t'"
    by blast
  from r(2,3) have "hd r = hd (concat ts)"
    by (cases r; cases "concat ts") auto
  with hr show False
    using sync t(1) t' ts by (metis subsetD)
qed

lemma stripLeading_append:
  assumes "[] \<notin> set toks"
    and "\<forall>t\<in>set toks. \<forall>t'\<in>set toks. prefix t t' \<longrightarrow> t = t'"
    and "\<forall>t\<in>set toks. \<forall>c\<in>set (tl t). \<forall>t'\<in>set toks. hd t' \<noteq> c"
    and "set ts \<subseteq> set toks"
    and "stripLeading toks s \<noteq> []"
  shows "stripLeading toks (s @ concat ts) = stripLeading toks s @ concat ts"
  using assms
proof (induction toks s rule: stripLeading.induct)
  case (1 toks s)
  note ne = "1.prems"(1) and pf = "1.prems"(2) and sync = "1.prems"(3) and ts = "1.prems"(4)
  show ?case
  proof (cases "find (\<lambda>t. t \<noteq> [] \<and> prefix t s) toks")
    case None
    then have s1: "stripLeading toks s = s"
      by (subst stripLeading.simps) simp
    with "1.prems"(5) have s: "s \<noteq> []"
      by simp
    from find_none_append [OF ne sync s None ts] s1 show ?thesis
      by (subst stripLeading.simps) simp
  next
    case (Some t)
    then have t: "t \<in> set toks" "prefix t s"
      by (auto simp: find_Some_iff)
    then obtain x where x: "s = t @ x" by (auto simp: prefix_def)
    from find_token [OF ne pf t(1), of "x @ concat ts"] x
    have f: "find (\<lambda>t'. t' \<noteq> [] \<and> prefix t' (s @ concat ts)) toks = Some t" by simp
    have eq: "stripLeading toks s = stripLeading toks (drop (length t) s)"
      using Some by (subst stripLeading.simps) simp
    with "1.prems"(5) have "stripLeading toks (drop (length t) s) \<noteq> []"
      by simp
    from "1.IH" [OF Some ne pf sync ts this] have
      "stripLeading toks (drop (length t) s @ concat ts) = stripLeading toks (drop (length t) s) @ concat ts" .
    moreover have "stripLeading toks (s @ concat ts) = stripLeading toks (drop (length t) (s @ concat ts))"
      using f by (subst stripLeading.simps) simp
    ultimately show ?thesis using x eq by simp
  qed
qed

lemma ws_nonempty: "[] \<notin> set whiteSpace"
  by (simp add: whiteSpace_def)

lemma ws_prefix_free: "\<forall>t\<in>set whiteSpace. \<forall>t'\<in>set whiteSpace. prefix t t' \<longrightarrow> t = t'"
  by (simp add: whiteSpace_def)

lemma ws_suffix_free:
  "\<forall>t\<in>set (map rev whiteSpace). \<forall>t'\<in>set (map rev whiteSpace). prefix t t' \<longrightarrow> t = t'"
  by (simp add: whiteSpace_def)

lemma ws_sync: "\<forall>t\<in>set whiteSpace. \<forall>c\<in>set (tl t). \<forall>t'\<in>set whiteSpace. hd t' \<noteq> c"
  by (simp add: whiteSpace_def)

lemma concat_rev_tokens:
  "set ts \<subseteq> set (map rev toks) \<Longrightarrow> \<exists>us. set us \<subseteq> set toks \<and> rev (concat ts) = concat us"
proof (induction ts)
  case Nil
  then show ?case by (intro exI [of _ "[]"]) simp
next
  case (Cons t ts)
  then obtain us where us: "set us \<subseteq> set toks" "rev (concat ts) = concat us" by auto
  from Cons.prems obtain u where u: "u \<in> set toks" "t = rev u" by auto
  with us show ?case
    by (intro exI [of _ "us @ [u]"]) simp
qed

lemma TrimSpace_blank_tokens:
  assumes "TrimSpace l = []"
  shows "\<exists>ts. set ts \<subseteq> set whiteSpace \<and> l = concat ts"
proof -
  from assms have "stripLeading (map rev whiteSpace) (rev (TrimLeft l)) = []"
    by (simp add: TrimSpace_def TrimRight_def)
  from stripLeading_empty_tokens [OF this] obtain ts where
    "set ts \<subseteq> set (map rev whiteSpace)" "rev (TrimLeft l) = concat ts" by blast
  with concat_rev_tokens [of ts whiteSpace] obtain us where
    us: "set us \<subseteq> set whiteSpace" "TrimLeft l = concat us"
    by (metis rev_rev_ident)
  have "stripLeading whiteSpace (TrimLeft l) = []"
    using stripLeading_concat [OF ws_nonempty ws_prefix_free us(1), of "[]"] us(2)
    by (simp add: stripLeading_Nil)
  then have "stripLeading whiteSpace l = []"
    by (simp add: TrimLeft_def stripLeading_idem)
  from stripLeading_empty_tokens [OF this] show ?thesis .
qed

lemma TrimSpace_Nil: "TrimSpace [] = []"
  by (simp add: TrimSpace_def TrimRight_def TrimLeft_def stripLeading_Nil)

lemma TrimSpace_padding:
  assumes l: "TrimSpace l = []" and r: "TrimSpace r = []"
  shows "TrimSpace (l @ core @ r) = TrimSpace core"
proof -
  from TrimSpace_blank_tokens [OF l] obtain ls where
    ls: "set ls \<subseteq> set whiteSpace" "l = concat ls" by blast
  from TrimSpace_blank_tokens [OF r] obtain rs where
    rs: "set rs \<subseteq> set whiteSpace" "r = concat rs" by blast
  have left: "TrimLeft (l @ core @ r) = TrimLeft (core @ r)"
    using stripLeading_concat [OF ws_nonempty ws_prefix_free ls(1)] ls(2)
    by (simp add: TrimLeft_def)
  have rev_r: "\<exists>us. set us \<subseteq> set (map rev whiteSpace) \<and> rev r = concat us"
    using rs by (intro exI [of _ "map rev (rev rs)"]) (auto simp: rev_concat rev_map)
  show ?thesis
  proof (cases "TrimLeft core = []")
    case True
    then obtain cs where cs: "set cs \<subseteq> set whiteSpace" "core = concat cs"
      using stripLeading_empty_tokens [of whiteSpace core] by (auto simp: TrimLeft_def)
    have "TrimLeft (core @ r) = TrimLeft r"
      using stripLeading_concat [OF ws_nonempty ws_prefix_free cs(1)] cs(2)
      by (simp add: TrimLeft_def)
    also have "\<dots> = []"
      using stripLeading_concat [OF ws_nonempty ws_prefix_free rs(1), of "[]"] rs(2)
      by (simp add: TrimLeft_def stripLeading_Nil)
    finally show ?thesis
      using True left by (simp add: TrimSpace_def)
  next
    case False
    then have "TrimLeft (core @ r) = TrimLeft core @ r"
      using stripLeading_append [OF ws_nonempty ws_prefix_free ws_sync rs(1), of core] rs(2)
      by (simp add: TrimLeft_def)
    moreover
    from rev_r obtain us where us: "set us \<subseteq> set (map rev whiteSpace)" "rev r = concat us"
      by blast
    have "[] \<notin> set (map rev whiteSpace)"
      using ws_nonempty by auto
    from stripLeading_concat [OF this ws_suffix_free us(1), of "rev (TrimLeft core)"] us(2)
    have "TrimRight (TrimLeft core @ r) = TrimRight (TrimLeft core)"
      by (simp add: TrimRight_def)
    ultimately show ?thesis
      using left by (simp add: TrimSpace_def)
  qed
qed

section \<open>Lemmas on the operations\<close>

lemmas io_defs = andThen_def succeed_def failWith_def lift_def wrapErr_def



lemma sample_GetManifest:
  "BaseUrl (config u) = ''https://example.com'' \<Longrightarrow>
   UpdaterConfigFile (config u) = ''manifest.json'' \<Longrightarrow>
   jsonUnmarshal w ''MANIFEST'' = Inr m \<Longrightarrow>
   urlJoinPath w = urlJoinPath sampleWorld \<Longrightarrow> urlParse w = urlParse sampleWorld \<Longrightarrow>
   httpServer w = httpServer sampleWorld \<Longrightarrow>
   GetManifest w u sampleState =
     (Inr m, sampleState\<lparr>requests := [''https://example.com/manifest.json'']\<rparr>)"
  by (simp add: GetManifest_def io_defs sampleWorld_def validateUrl_def sampleParse_def
      httpNewRequest_def httpDo_def sampleState_def)

section \<open>The claims\<close>

subsection \<open>C2: update availability is inequality of the trimmed versions\<close>

text \<open>
  C2. When the current version is not blank and the manifest is fetched,
  \<open>CheckForAvailableUpdate\<close> reports an update exactly when the trimmed current version
  differs from the trimmed manifest version (and then returns the trimmed manifest
  version). In particular it reports none when the two versions are the same text \<open>core\<close>
  between any white space: \<open>l\<close>, \<open>r\<close>, \<open>l'\<close>, \<open>r'\<close> are strings that \<open>TrimSpace\<close> empties.
  The versions are compared as strings, nothing else is looked at.
\<close>

theorem CheckForAvailableUpdate_iff:
  assumes cur: "TrimSpace (CurrentVersion (config updater)) \<noteq> []"
    and m: "GetManifest w updater st = (Inr manifest, st')"
  shows "CheckForAvailableUpdate w updater st =
           (if TrimSpace (CurrentVersion (config updater)) \<noteq> TrimSpace (Version manifest)
            then ((True, TrimSpace (Version manifest), None), st')
            else ((False, [], None), st')) \<and>
         (\<forall>l r l' r' core.
            TrimSpace l = [] \<and> TrimSpace r = [] \<and> TrimSpace l' = [] \<and> TrimSpace r' = [] \<and>
            CurrentVersion (config updater) = l @ core @ r \<and>
            Version manifest = l' @ core @ r' \<longrightarrow>
            CheckForAvailableUpdate w updater st = ((False, [], None), st'))"
proof -
  have eq: "CheckForAvailableUpdate w updater st =
           (if TrimSpace (CurrentVersion (config updater)) \<noteq> TrimSpace (Version manifest)
            then ((True, TrimSpace (Version manifest), None), st')
            else ((False, [], None), st'))"
    using cur m by (simp add: CheckForAvailableUpdate_def Let_def)
  have "CheckForAvailableUpdate w updater st = ((False, [], None), st')"
    if "TrimSpace l = []" "TrimSpace r = []" "TrimSpace l' = []" "TrimSpace r' = []"
      "CurrentVersion (config updater) = l @ core @ r" "Version manifest = l' @ core @ r'"
    for l r l' r' core
  proof -
    have "TrimSpace (CurrentVersion (config updater)) = TrimSpace core"
      using that by (simp add: TrimSpace_padding)
    moreover have "TrimSpace (Version manifest) = TrimSpace core"
      using that by (simp add: TrimSpace_padding)
    ultimately show ?thesis using eq by simp
  qed
  with eq show ?thesis by blast
qed

text \<open>
  The sample world, whose manifest has version \<open>2.0.0\<close>: no update for the current version
  \<open>2.0.0\<close> written with a space before it and a line feed after it, an update for \<open>1.0.0\<close>.
\<close>

theorem CheckForAvailableUpdate_iff_witness:
  "CheckForAvailableUpdate sampleWorld
     (sampleUpdater\<lparr>config := (config sampleUpdater)\<lparr>CurrentVersion := '' 2.0.0'' @ [CHR 0x0A]\<rparr>\<rparr>)
     sampleState =
   ((False, [], None), sampleState\<lparr>requests := [''https://example.com/manifest.json'']\<rparr>) \<and>
   CheckForAvailableUpdate sampleWorld sampleUpdater sampleState =
   ((True, ''2.0.0'', None), sampleState\<lparr>requests := [''https://example.com/manifest.json'']\<rparr>)"
proof -
  let ?u = "sampleUpdater\<lparr>config := (config sampleUpdater)\<lparr>CurrentVersion := '' 2.0.0'' @ [CHR 0x0A]\<rparr>\<rparr>"
  let ?st = "sampleState\<lparr>requests := [''https://example.com/manifest.json'']\<rparr>"
  have t1: "TrimSpace ('' 2.0.0'' @ [CHR 0x0A]) = ''2.0.0''" by code_simp
  have t2: "TrimSpace ''2.0.0'' = ''2.0.0''" by code_simp
  have t3: "TrimSpace ''1.0.0'' = ''1.0.0''" by code_simp
  have t4: "TrimSpace '' '' = []" by code_simp
  have t5: "TrimSpace [CHR 0x0A] = []" by code_simp
  have m1: "GetManifest sampleWorld ?u sampleState = (Inr sampleManifest, ?st)"
    by (rule sample_GetManifest) (simp_all add: sampleUpdater_def sampleWorld_def)
  have m2: "GetManifest sampleWorld sampleUpdater sampleState = (Inr sampleManifest, ?st)"
    by (rule sample_GetManifest) (simp_all add: sampleUpdater_def sampleWorld_def)
  have c1: "TrimSpace (CurrentVersion (config ?u)) \<noteq> []"
    using t1 by simp
  have c2: "TrimSpace (CurrentVersion (config sampleUpdater)) \<noteq> []"
    using t3 by (simp add: sampleUpdater_def)
  from CheckForAvailableUpdate_iff [OF c1 m1]
  have "TrimSpace '' '' = [] \<and> TrimSpace [CHR 0x0A] = [] \<and> TrimSpace [] = [] \<and>
        TrimSpace [] = [] \<and>
        CurrentVersion (config ?u) = '' '' @ ''2.0.0'' @ [CHR 0x0A] \<and>
        Version sampleManifest = [] @ ''2.0.0'' @ [] \<longrightarrow>
        CheckForAvailableUpdate sampleWorld ?u sampleState = ((False, [], None), ?st)"
    by blast
  then have a: "CheckForAvailableUpdate sampleWorld ?u sampleState = ((False, [], None), ?st)"
    using t4 t5 by (simp add: TrimSpace_Nil sampleManifest_def)
  from CheckForAvailableUpdate_iff [OF c2 m2]
  have b: "CheckForAvailableUpdate sampleWorld sampleUpdater sampleState =
           ((True, ''2.0.0'', None), ?st)"
    using t2 t3 by (simp add: sampleManifest_def sampleUpdater_def)
  from a b show ?thesis by simp
qed

subsection \<open>C4: a platform the manifest does not list\<close>




subsection \<open>C5: only https URLs with a host are requested\<close>

text \<open>
  C5. Each of the three operations that make a request, the manifest fetch, the download
  of the bare binary and the download of the archive, joins the base URL and the file name
  and validates the result first. When the joined URL \<open>u\<close> parses to a scheme other than
  \<open>https\<close> or to an empty host, the operation returns an error, and the list of requests
  made is the one before the call (for the downloads the file system is unchanged too).
\<close>

theorem https_only:
  assumes "urlParse w u = Inr p" and "Scheme p \<noteq> ''https'' \<or> Host p = []"
  shows "(urlJoinPath w (BaseUrl (config updater)) (UpdaterConfigFile (config updater)) = Inr u \<longrightarrow>
            (\<exists>e. GetManifest w updater st = (Inl e, st))) \<and>
         (urlJoinPath w (BaseUrl (config updater)) (binaryName updater) = Inr u \<longrightarrow>
            (\<exists>e st'. downloadBinary w updater st = (Inl e, st') \<and>
                      requests st' = requests st \<and> fs st' = fs st)) \<and>
         (urlJoinPath w (BaseUrl (config updater)) (archiveName updater) = Inr u \<longrightarrow>
            (\<exists>e st'. downloadArchive w updater st = (Inl e, st') \<and>
                      requests st' = requests st \<and> fs st' = fs st))"
proof -
  from assms have v: "\<exists>e. validateUrl w u = Inl e"
    by (auto simp: validateUrl_def)
  show ?thesis
  proof (intro conjI impI)
    assume "urlJoinPath w (BaseUrl (config updater)) (UpdaterConfigFile (config updater)) = Inr u"
    with v show "\<exists>e. GetManifest w updater st = (Inl e, st)"
      by (auto simp: GetManifest_def io_defs)
  next
    assume "urlJoinPath w (BaseUrl (config updater)) (binaryName updater) = Inr u"
    with v show "\<exists>e st'. downloadBinary w updater st = (Inl e, st') \<and>
                      requests st' = requests st \<and> fs st' = fs st"
      by (cases "Executable w") (auto simp: downloadBinary_def io_defs uuidNewString_def Let_def)
  next
    assume "urlJoinPath w (BaseUrl (config updater)) (archiveName updater) = Inr u"
    with v show "\<exists>e st'. downloadArchive w updater st = (Inl e, st') \<and>
                      requests st' = requests st \<and> fs st' = fs st"
      by (auto simp: downloadArchive_def io_defs uuidNewString_def Let_def)
  qed
qed

text \<open>
  The sample updater with the base URL \<open>http://example.com\<close>: the three operations fail
  on the scheme and request nothing.
\<close>

theorem https_only_witness:
  "GetManifest sampleWorld
     (sampleUpdater\<lparr>config := (config sampleUpdater)\<lparr>BaseUrl := ''http://example.com''\<rparr>\<rparr>)
     sampleState = (Inl ErrInvalidScheme, sampleState) \<and>
   fst (downloadBinary sampleWorld
     (sampleUpdater\<lparr>config := (config sampleUpdater)\<lparr>BaseUrl := ''http://example.com''\<rparr>,
                     binaryName := ''linux''\<rparr>) sampleState) = Inl ErrInvalidScheme \<and>
   requests (snd (downloadBinary sampleWorld
     (sampleUpdater\<lparr>config := (config sampleUpdater)\<lparr>BaseUrl := ''http://example.com''\<rparr>,
                     binaryName := ''linux''\<rparr>) sampleState)) = [] \<and>
   fst (downloadArchive sampleWorld
     (sampleUpdater\<lparr>config := (config sampleUpdater)\<lparr>BaseUrl := ''http://example.com''\<rparr>,
                     archiveName := ''tool.zip''\<rparr>) sampleState) = Inl ErrInvalidScheme \<and>
   requests (snd (downloadArchive sampleWorld
     (sampleUpdater\<lparr>config := (config sampleUpdater)\<lparr>BaseUrl := ''http://example.com''\<rparr>,
                     archiveName := ''tool.zip''\<rparr>) sampleState)) = []"
proof -
  let ?u = "sampleUpdater\<lparr>config := (config sampleUpdater)\<lparr>BaseUrl := ''http://example.com''\<rparr>\<rparr>"
  let ?p = "\<lparr>Scheme = ''http'', Host = ''example.com''\<rparr>"
  have p1: "urlParse sampleWorld ''http://example.com/manifest.json'' = Inr ?p"
    by (simp add: sampleWorld_def sampleParse_def)
  have p2: "urlParse sampleWorld ''http://example.com/linux'' = Inr ?p"
    by (simp add: sampleWorld_def sampleParse_def)
  have p3: "urlParse sampleWorld ''http://example.com/tool.zip'' = Inr ?p"
    by (simp add: sampleWorld_def sampleParse_def)
  have s: "Scheme ?p \<noteq> ''https'' \<or> Host ?p = []" by simp
  have j1: "urlJoinPath sampleWorld (BaseUrl (config ?u)) (UpdaterConfigFile (config ?u))
            = Inr ''http://example.com/manifest.json''"
    by (simp add: sampleWorld_def sampleUpdater_def)
  have j2: "urlJoinPath sampleWorld (BaseUrl (config (?u\<lparr>binaryName := ''linux''\<rparr>)))
              (binaryName (?u\<lparr>binaryName := ''linux''\<rparr>))
            = Inr ''http://example.com/linux''"
    by (simp add: sampleWorld_def sampleUpdater_def)
  have j3: "urlJoinPath sampleWorld (BaseUrl (config (?u\<lparr>archiveName := ''tool.zip''\<rparr>)))
              (archiveName (?u\<lparr>archiveName := ''tool.zip''\<rparr>))
            = Inr ''http://example.com/tool.zip''"
    by (simp add: sampleWorld_def sampleUpdater_def)
  from https_only [OF p1 s, of ?u sampleState] j1
  obtain e where e: "GetManifest sampleWorld ?u sampleState = (Inl e, sampleState)" by blast
  have "fst (GetManifest sampleWorld ?u sampleState) = Inl ErrInvalidScheme"
    by (simp add: GetManifest_def io_defs sampleWorld_def validateUrl_def sampleParse_def
        sampleUpdater_def)
  with e have a: "GetManifest sampleWorld ?u sampleState = (Inl ErrInvalidScheme, sampleState)"
    by simp
  from https_only [OF p2 s, of "?u\<lparr>binaryName := ''linux''\<rparr>" sampleState] j2
  obtain e' st' where
    b: "downloadBinary sampleWorld (?u\<lparr>binaryName := ''linux''\<rparr>) sampleState = (Inl e', st')"
      "requests st' = requests sampleState" by blast
  have b': "fst (downloadBinary sampleWorld (?u\<lparr>binaryName := ''linux''\<rparr>) sampleState)
        = Inl ErrInvalidScheme"
    by (simp add: downloadBinary_def io_defs sampleWorld_def validateUrl_def sampleParse_def
        sampleUpdater_def uuidNewString_def)
  from https_only [OF p3 s, of "?u\<lparr>archiveName := ''tool.zip''\<rparr>" sampleState] j3
  obtain e'' st'' where
    c: "downloadArchive sampleWorld (?u\<lparr>archiveName := ''tool.zip''\<rparr>) sampleState = (Inl e'', st'')"
      "requests st'' = requests sampleState" by blast
  have c': "fst (downloadArchive sampleWorld (?u\<lparr>archiveName := ''tool.zip''\<rparr>) sampleState)
        = Inl ErrInvalidScheme"
    by (simp add: downloadArchive_def io_defs sampleWorld_def validateUrl_def sampleParse_def
        sampleUpdater_def uuidNewString_def Let_def)
  from a b b' c c' show ?thesis by (simp add: sampleState_def)
qed

subsection \<open>C8: rendering templates\<close>



subsection \<open>C9: the binary name of a successful resolution\<close>




end
